theory Spec2Isabelle
  imports Main "HOL-Library.AList"
begin

section \<open>Data model\<close>

text \<open>
  The rows of the three tables the authentication core reads and writes
  (\<^verbatim>\<open>app/models/user.py\<close>, \<^verbatim>\<open>app/models/role.py\<close>). Only the columns that the
  modelled functions touch are kept; \<^verbatim>\<open>username\<close>, \<^verbatim>\<open>full_name\<close> and the two
  row timestamps are never read by them. A nullable column is an \<open>option\<close>.
  Python's \<^verbatim>\<open>id\<close> and \<^verbatim>\<open>name\<close> attributes are suffixed with their table, since
  record fields share one name space.
\<close>

record permission =
  name_permission :: string
  category_permission :: string
  action_permission :: string

record role =
  id_role :: int
  name_role :: string
  display_name :: string
  is_system_role :: bool
  permissions :: "permission list"

text \<open>
  \<^verbatim>\<open>mfa_backup_codes\<close> is a text column holding \<^verbatim>\<open>json.dumps\<close> of a list of hex
  digests; the model keeps the decoded list, so \<open>Some []\<close> is the text \<^verbatim>\<open>"[]"\<close>
  (a non-empty, hence truthy, Python string) and \<open>None\<close> is SQL NULL.
  Datetimes are integer seconds.
\<close>

record user =
  id_user :: string
  email :: string
  hashed_password :: string
  is_active :: bool
  is_superuser :: bool
  role_id :: "int option"
  mfa_enabled :: bool
  mfa_secret :: "string option"
  mfa_backup_codes :: "string list option"
  email_verified :: bool
  verification_token :: "string option"
  verification_token_expires :: "int option"
  reset_token :: "string option"
  reset_token_expires :: "int option"

text \<open>
  The database session: the rows of \<^verbatim>\<open>users\<close> and \<^verbatim>\<open>roles\<close>, the grant edges
  being the \<open>permissions\<close> list of each role (the ORM's \<^verbatim>\<open>secondary\<close> relationship).
\<close>

record database =
  users :: "user list"
  roles :: "role list"

text \<open>\<^verbatim>\<open>user.role\<close>: the many-to-one relationship, resolved through \<^verbatim>\<open>role_id\<close>.\<close>

definition user_role :: "database \<Rightarrow> user \<Rightarrow> role option" where
  "user_role db u =
     (case role_id u of
        None \<Rightarrow> None
      | Some rid \<Rightarrow> find (\<lambda>r. id_role r = rid) (roles db))"

section \<open>Permission service\<close>

text \<open>
  \<^verbatim>\<open>str.split(sep)\<close> for a one-character separator: the pieces between the
  separators, never an empty list.
\<close>

fun py_split :: "char \<Rightarrow> string \<Rightarrow> string list" where
  "py_split sep [] = [[]]"
| "py_split sep (c # cs) =
     (if c = sep then [] # py_split sep cs
      else (case py_split sep cs of
              [] \<Rightarrow> [[c]]
            | w # ws \<Rightarrow> (c # w) # ws))"

text \<open>\<^verbatim>\<open>PermissionService.get_user_permissions\<close>\<close>

definition get_user_permissions :: "database \<Rightarrow> user \<Rightarrow> string list" where
  "get_user_permissions db u =
     (case user_role db u of
        None \<Rightarrow> []
      | Some r \<Rightarrow> map name_permission (permissions r))"

text \<open>
  \<^verbatim>\<open>PermissionService.user_has_permission\<close>. The subscript \<^verbatim>\<open>[0]\<close> cannot raise,
  because \<open>py_split\<close> never returns the empty list (\<open>py_split_not_Nil\<close> below).
\<close>

definition user_has_permission :: "database \<Rightarrow> user \<Rightarrow> string \<Rightarrow> bool" where
  "user_has_permission db u permission =
     (let perms = get_user_permissions db u in
      if ''system.*'' \<in> set perms then True
      else if permission \<in> set perms then True
      else if CHR ''.'' \<in> set permission then
        (case py_split CHR ''.'' permission of
           [] \<Rightarrow> False
         | category # _ \<Rightarrow> if (category @ ''.*'') \<in> set perms then True else False)
      else False)"

section \<open>Outcomes: exceptions, HTTP errors, responses\<close>

text \<open>
  A Python exception is a value: its class and message. An endpoint either returns a
  response or fails; it fails with the \<^verbatim>\<open>HTTPException\<close> it raises (status code and
  detail; the headers are constant per status and left out) or with an exception that
  nothing catches, which the framework turns into a server error.
\<close>

datatype py_exception = ValueError string | Error string

datatype failure = HTTPException nat string | Uncaught py_exception

section \<open>Tokens\<close>

text \<open>
  The values a claim takes in this code base: \<^verbatim>\<open>None\<close>, strings, integers, booleans,
  the list of permission names, and the \<^verbatim>\<open>datetime\<close> of \<^verbatim>\<open>exp\<close> and \<^verbatim>\<open>iat\<close>
  (integer seconds). A claim set is a Python \<^verbatim>\<open>dict\<close>: an association list
  in insertion order, updated with \<open>AList.update\<close> and read with \<open>dict_get\<close>.
\<close>

datatype claim_value =
  VNone | VStr string | VInt int | VBool bool | VList "string list" | VTime int

type_synonym claims = "(string \<times> claim_value) list"

text \<open>\<^verbatim>\<open>d.get(k)\<close>: \<^verbatim>\<open>None\<close> for a missing key.\<close>

definition dict_get :: "claims \<Rightarrow> string \<Rightarrow> claim_value" where
  "dict_get d k = (case map_of d k of None \<Rightarrow> VNone | Some v \<Rightarrow> v)"

text \<open>Python truthiness, as \<^verbatim>\<open>if not x\<close> tests it.\<close>

fun truthy :: "claim_value \<Rightarrow> bool" where
  "truthy VNone = False"
| "truthy (VStr s) = (s \<noteq> [])"
| "truthy (VInt i) = (i \<noteq> 0)"
| "truthy (VBool b) = b"
| "truthy (VList l) = (l \<noteq> [])"
| "truthy (VTime t) = True"

text \<open>
  Tokens are symbolic. \<^verbatim>\<open>jose.jwt.encode(claims, key, algorithm)\<close> is the constructor
  \<open>JWT\<close>: the token is the claim set it carries together with the key and algorithm
  that signed it. \<open>Opaque\<close> is any other string a client may submit.
\<close>

datatype token = JWT claims string string | Opaque string

record settings =
  SECRET_KEY :: string
  ALGORITHM :: string
  ACCESS_TOKEN_EXPIRE_MINUTES :: int
  REFRESH_TOKEN_EXPIRE_DAYS :: int

section \<open>Third-party libraries\<close>

text \<open>
  The functions of libraries that the repository calls but does not contain are
  parameters of the model, collected in one record. Those that read the clock take the
  reading as their first argument.
  \<^item> \<open>jwt_decode now token key algorithms\<close>: \<^verbatim>\<open>jose.jwt.decode\<close>; \<open>None\<close> stands
    for its raising \<^verbatim>\<open>JWTError\<close> (or a subclass), which is how it rejects a token.
  \<^item> \<open>bcrypt_checkpw password hashed\<close>: \<^verbatim>\<open>bcrypt.checkpw\<close>, which returns a boolean
    or raises.
  \<^item> \<open>totp_verify now secret code window\<close>: \<^verbatim>\<open>pyotp.TOTP(secret).verify(code,
    valid_window=window)\<close>.
  \<^item> \<open>b64decode\<close>: \<^verbatim>\<open>base64.b64decode(s.encode()).decode()\<close>, which raises on text
    that is not base64 of UTF-8.
  \<^item> \<open>sha256_hexdigest\<close>: \<^verbatim>\<open>hashlib.sha256(s.encode()).hexdigest()\<close>.
  \<^item> \<open>send_email to token\<close>: delivery of a message by \<^verbatim>\<open>EmailService\<close>; \<open>Some e\<close>
    is the exception that \<^verbatim>\<open>_send_email_smtp\<close> re-raises.
\<close>

record libraries =
  jwt_decode :: "int \<Rightarrow> token \<Rightarrow> string \<Rightarrow> string list \<Rightarrow> claims option"
  bcrypt_checkpw :: "string \<Rightarrow> string \<Rightarrow> py_exception + bool"
  totp_verify :: "int \<Rightarrow> string \<Rightarrow> string \<Rightarrow> nat \<Rightarrow> py_exception + bool"
  b64decode :: "string \<Rightarrow> py_exception + string"
  sha256_hexdigest :: "string \<Rightarrow> string"
  send_email :: "string \<Rightarrow> string \<Rightarrow> py_exception option"

section \<open>Security utilities (\<^verbatim>\<open>app/core/security.py\<close>)\<close>

text \<open>
  \<^verbatim>\<open>verify_password\<close>: the two \<^verbatim>\<open>encode('utf-8')\<close> calls are the identity on the
  model's byte strings; the result of \<^verbatim>\<open>bcrypt.checkpw\<close> is returned as it is, and
  there is no handler around the call.
\<close>

definition verify_password :: "libraries \<Rightarrow> string \<Rightarrow> string \<Rightarrow> py_exception + bool" where
  "verify_password lib plain_password hashed_password' =
     bcrypt_checkpw lib plain_password hashed_password'"

text \<open>
  The repository's own code reads the clock with \<^verbatim>\<open>datetime.utcnow()\<close>, and every call
  is a reading of its own. A \<open>clock\<close> gives the readings that the code makes while it
  serves one request, in call order: \<open>clock 0\<close> is the first, \<open>clock 1\<close> the second.
\<close>

type_synonym clock = "nat \<Rightarrow> int"

text \<open>
  \<^verbatim>\<open>create_access_token\<close>. \<open>expires_delta\<close> is an optional \<^verbatim>\<open>timedelta\<close> in
  seconds; \<^verbatim>\<open>if expires_delta:\<close> is false for \<^verbatim>\<open>None\<close> and for the zero delta.
  The function reads the clock twice: \<open>now_exp\<close> is the reading that \<^verbatim>\<open>expire\<close> is
  computed from (one call in either branch), \<open>now_iat\<close> the later one stored as
  \<^verbatim>\<open>iat\<close>.
\<close>

definition create_access_token :: "settings \<Rightarrow> int \<Rightarrow> int \<Rightarrow> claims \<Rightarrow> int option \<Rightarrow> token" where
  "create_access_token st now_exp now_iat data expires_delta =
     (let to_encode = data;
          expire = (case expires_delta of
                      Some d \<Rightarrow> if d \<noteq> 0 then now_exp + d
                                else now_exp + 60 * ACCESS_TOKEN_EXPIRE_MINUTES st
                    | None \<Rightarrow> now_exp + 60 * ACCESS_TOKEN_EXPIRE_MINUTES st);
          to_encode = AList.update ''iat'' (VTime now_iat)
                        (AList.update ''exp'' (VTime expire) to_encode)
      in JWT to_encode (SECRET_KEY st) (ALGORITHM st))"

text \<open>\<^verbatim>\<open>create_refresh_token\<close>\<close>

definition create_refresh_token :: "settings \<Rightarrow> int \<Rightarrow> int \<Rightarrow> claims \<Rightarrow> token" where
  "create_refresh_token st now_exp now_iat data =
     (let expires_delta = 86400 * REFRESH_TOKEN_EXPIRE_DAYS st
      in create_access_token st now_exp now_iat data (Some expires_delta))"

text \<open>\<^verbatim>\<open>decode_token\<close>: the payload, or \<^verbatim>\<open>None\<close> when \<^verbatim>\<open>jwt.decode\<close> raises.\<close>

definition decode_token :: "libraries \<Rightarrow> settings \<Rightarrow> int \<Rightarrow> token \<Rightarrow> claims option" where
  "decode_token lib st now tok =
     (case jwt_decode lib now tok (SECRET_KEY st) [ALGORITHM st] of
        Some payload \<Rightarrow> Some payload
      | None \<Rightarrow> None)"

section \<open>MFA service (\<^verbatim>\<open>app/services/mfa_service.py\<close>)\<close>

text \<open>
  \<^verbatim>\<open>db.commit()\<close> after mutating a row: the row with that primary key is replaced.
\<close>

definition commit :: "database \<Rightarrow> user \<Rightarrow> database" where
  "commit db u = db\<lparr>users := map (\<lambda>x. if id_user x = id_user u then u else x) (users db)\<rparr>"

text \<open>\<^verbatim>\<open>MFAService.verify_totp\<close>: any exception of the library is a rejection.\<close>

definition verify_totp :: "libraries \<Rightarrow> int \<Rightarrow> string \<Rightarrow> string \<Rightarrow> nat \<Rightarrow> bool" where
  "verify_totp lib now secret code window =
     (case totp_verify lib now secret code window of
        Inr b \<Rightarrow> b
      | Inl _ \<Rightarrow> False)"

text \<open>\<^verbatim>\<open>MFAService.hash_backup_code\<close>\<close>

definition hash_backup_code :: "libraries \<Rightarrow> string \<Rightarrow> string" where
  "hash_backup_code lib code = sha256_hexdigest lib code"

text \<open>\<^verbatim>\<open>MFAService.verify_backup_code\<close>\<close>

definition verify_backup_code :: "libraries \<Rightarrow> string \<Rightarrow> string list \<Rightarrow> bool \<times> string option" where
  "verify_backup_code lib code hashed_codes =
     (let code_hash = hash_backup_code lib code
      in if code_hash \<in> set hashed_codes then (True, Some code_hash) else (False, None))"

text \<open>\<^verbatim>\<open>MFAService.decrypt_secret\<close>\<close>

definition decrypt_secret :: "libraries \<Rightarrow> string \<Rightarrow> py_exception + string" where
  "decrypt_secret lib encrypted_secret = b64decode lib encrypted_secret"

text \<open>\<^verbatim>\<open>MFAService.disable_mfa\<close>\<close>

definition MFAService_disable_mfa :: "database \<Rightarrow> user \<Rightarrow> database" where
  "MFAService_disable_mfa db u =
     commit db (u\<lparr>mfa_enabled := False, mfa_secret := None, mfa_backup_codes := None\<rparr>)"

text \<open>
  \<^verbatim>\<open>MFAService.verify_user_totp\<close>. \<^verbatim>\<open>not user.mfa_secret\<close> holds for NULL and for
  the empty string. An exception of \<^verbatim>\<open>decrypt_secret\<close> is not caught here.
\<close>

definition verify_user_totp :: "libraries \<Rightarrow> int \<Rightarrow> user \<Rightarrow> string \<Rightarrow> py_exception + bool" where
  "verify_user_totp lib now u code =
     (if \<not> mfa_enabled u \<or> mfa_secret u = None \<or> mfa_secret u = Some [] then Inr False
      else (case mfa_secret u of
              None \<Rightarrow> Inr False
            | Some enc \<Rightarrow>
                (case decrypt_secret lib enc of
                   Inl e \<Rightarrow> Inl e
                 | Inr secret \<Rightarrow> Inr (verify_totp lib now secret code 1))))"

text \<open>
  \<^verbatim>\<open>MFAService.verify_user_backup_code\<close>. \<^verbatim>\<open>list.remove\<close> deletes the first
  occurrence of the matched hash, which is present, so it cannot raise; the shortened
  list is written back and committed before \<^verbatim>\<open>True\<close> is returned.
\<close>

definition verify_user_backup_code :: "libraries \<Rightarrow> database \<Rightarrow> user \<Rightarrow> string \<Rightarrow> bool \<times> database" where
  "verify_user_backup_code lib db u code =
     (if \<not> mfa_enabled u then (False, db)
      else (case mfa_backup_codes u of
              None \<Rightarrow> (False, db)
            | Some hashed_codes \<Rightarrow>
                (case verify_backup_code lib code hashed_codes of
                   (True, Some matched_hash) \<Rightarrow>
                     (True, commit db (u\<lparr>mfa_backup_codes := Some (remove1 matched_hash hashed_codes)\<rparr>))
                 | _ \<Rightarrow> (False, db))))"

section \<open>Endpoints (\<^verbatim>\<open>app/api/v1/auth.py\<close>, \<^verbatim>\<open>app/api/v1/mfa.py\<close>)\<close>

text \<open>
  The response models: \<^verbatim>\<open>MFALoginResponse(mfa_required, temp_token, message)\<close>,
  \<^verbatim>\<open>TokenWithRefresh(access_token, refresh_token, token_type)\<close>,
  \<^verbatim>\<open>Token(access_token, token_type)\<close> and the plain \<^verbatim>\<open>{"message": ...}\<close> dictionary.
\<close>

datatype response =
  MFALoginResponse bool token string
| TokenWithRefresh token token string
| Token token string
| Message string

text \<open>
  \<^verbatim>\<open>login\<close>. \<^verbatim>\<open>if user.role_id:\<close> is false for NULL and for the id 0. The same
  \<^verbatim>\<open>token_data\<close> dictionary is handed to \<^verbatim>\<open>create_access_token\<close> and to
  \<^verbatim>\<open>create_refresh_token\<close>. The first mint of the request takes the readings
  \<open>clock 0\<close> and \<open>clock 1\<close>, the second one \<open>clock 2\<close> and \<open>clock 3\<close>.
\<close>

definition login :: "libraries \<Rightarrow> settings \<Rightarrow> clock \<Rightarrow> database \<Rightarrow> string \<Rightarrow> string \<Rightarrow> failure + response" where
  "login lib st clock db login_email login_password =
     (case find (\<lambda>u. email u = login_email) (users db) of
        None \<Rightarrow> Inl (HTTPException 401 ''Incorrect email or password'')
      | Some u \<Rightarrow>
          (case verify_password lib login_password (hashed_password u) of
             Inl e \<Rightarrow> Inl (Uncaught e)
           | Inr ok \<Rightarrow>
               if \<not> ok then Inl (HTTPException 401 ''Incorrect email or password'')
               else if \<not> is_active u then Inl (HTTPException 403 ''User account is inactive'')
               else if \<not> email_verified u then
                 Inl (HTTPException 403
                   ''Please verify your email before logging in. Check your inbox for the verification link.'')
               else if mfa_enabled u then
                 (let temp_token_data =
                        [(''sub'', VStr (email u)), (''user_id'', VStr (id_user u)),
                         (''mfa_pending'', VBool True)];
                      temp_token = create_access_token st (clock 0) (clock 1) temp_token_data
                                     (Some (5 * 60))
                  in Inr (MFALoginResponse True temp_token ''MFA verification required''))
               else
                 (let (role_name, perms) =
                        (case role_id u of
                           None \<Rightarrow> (''user'', [])
                         | Some rid \<Rightarrow>
                             if rid = 0 then (''user'', [])
                             else (case find (\<lambda>r. id_role r = rid) (roles db) of
                                     None \<Rightarrow> (''user'', [])
                                   | Some r \<Rightarrow> (name_role r, get_user_permissions db u)));
                      token_data =
                        [(''sub'', VStr (email u)), (''user_id'', VStr (id_user u)),
                         (''role'', VStr role_name), (''permissions'', VList perms)];
                      access_token = create_access_token st (clock 0) (clock 1) token_data None;
                      refresh_token' = create_refresh_token st (clock 2) (clock 3) token_data
                  in Inr (TokenWithRefresh access_token refresh_token' ''bearer''))))"

text \<open>
  \<^verbatim>\<open>refresh_token\<close>. The query \<^verbatim>\<open>User.email == user_email\<close> matches a row only when
  the \<^verbatim>\<open>sub\<close> claim is that string. \<open>now\<close> is the reading of the library that
  decodes the token, \<open>clock\<close> gives those of the mint.
\<close>

definition refresh_token :: "libraries \<Rightarrow> settings \<Rightarrow> int \<Rightarrow> clock \<Rightarrow> database \<Rightarrow> token \<Rightarrow> failure + response" where
  "refresh_token lib st now clock db tok =
     (case decode_token lib st now tok of
        None \<Rightarrow> Inl (HTTPException 401 ''Invalid refresh token'')
      | Some payload \<Rightarrow>
          (let user_email = dict_get payload ''sub''
           in if user_email = VNone then Inl (HTTPException 401 ''Invalid refresh token'')
              else (case find (\<lambda>u. VStr (email u) = user_email) (users db) of
                      None \<Rightarrow> Inl (HTTPException 401 ''User not found or inactive'')
                    | Some u \<Rightarrow>
                        if \<not> is_active u then Inl (HTTPException 401 ''User not found or inactive'')
                        else
                          (let token_data =
                                 [(''sub'', VStr (email u)), (''user_id'', VStr (id_user u))];
                               access_token = create_access_token st (clock 0) (clock 1) token_data None
                           in Inr (Token access_token ''bearer'')))))"

text \<open>
  \<^verbatim>\<open>verify_mfa\<close>. \<^verbatim>\<open>if not payload:\<close> rejects \<^verbatim>\<open>None\<close> and the empty dictionary;
  \<^verbatim>\<open>if not user_id:\<close> rejects a missing or falsy claim. The request schema
  (\<^verbatim>\<open>MFAVerifyRequest\<close>) is applied by the framework before the body runs and is not
  part of it. \<open>now\<close> is the reading of the libraries that decode the token and check
  the TOTP code, \<open>clock\<close> gives those of the two mints.
\<close>

definition verify_mfa :: "libraries \<Rightarrow> settings \<Rightarrow> int \<Rightarrow> clock \<Rightarrow> database \<Rightarrow> token \<Rightarrow> string \<Rightarrow> (failure + response) \<times> database" where
  "verify_mfa lib st now clock db temp_token code =
     (case decode_token lib st now temp_token of
        None \<Rightarrow> (Inl (HTTPException 401 ''Invalid or expired token''), db)
      | Some payload \<Rightarrow>
          if payload = [] then (Inl (HTTPException 401 ''Invalid or expired token''), db)
          else
            (let user_id = dict_get payload ''user_id''
             in if \<not> truthy user_id then (Inl (HTTPException 401 ''Invalid token''), db)
                else (case find (\<lambda>u. VStr (id_user u) = user_id) (users db) of
                        None \<Rightarrow> (Inl (HTTPException 401 ''User not found''), db)
                      | Some u \<Rightarrow>
                          (case verify_user_totp lib now u code of
                             Inl e \<Rightarrow> (Inl (Uncaught e), db)
                           | Inr totp_ok \<Rightarrow>
                               (let (is_valid, db') =
                                      (if totp_ok then (True, db)
                                       else verify_user_backup_code lib db u code)
                                in if \<not> is_valid then (Inl (HTTPException 401 ''Invalid MFA code''), db')
                                   else
                                     (let token_data =
                                            [(''sub'', VStr (email u)), (''user_id'', VStr (id_user u)),
                                             (''mfa_verified'', VBool True)];
                                          access_token = create_access_token st (clock 0) (clock 1) token_data None;
                                          refresh_token' = create_refresh_token st (clock 2) (clock 3) token_data
                                      in (Inr (TokenWithRefresh access_token refresh_token' ''bearer''), db')))))))"

text \<open>
  \<^verbatim>\<open>disable_mfa\<close> (the endpoint). \<open>current_user\<close> is the row that the
  \<^verbatim>\<open>get_current_user\<close> dependency loaded from the session.
\<close>

definition disable_mfa :: "libraries \<Rightarrow> database \<Rightarrow> user \<Rightarrow> string \<Rightarrow> (failure + response) \<times> database" where
  "disable_mfa lib db current_user request_password =
     (if \<not> mfa_enabled current_user then (Inl (HTTPException 400 ''MFA is not enabled''), db)
      else (case verify_password lib request_password (hashed_password current_user) of
              Inl e \<Rightarrow> (Inl (Uncaught e), db)
            | Inr ok \<Rightarrow>
                if \<not> ok then (Inl (HTTPException 401 ''Incorrect password''), db)
                else (Inr (Message ''MFA disabled successfully''),
                      MFAService_disable_mfa db current_user)))"

text \<open>
  \<^verbatim>\<open>forgot_password\<close>. \<open>fresh\<close> is the value drawn by \<^verbatim>\<open>EmailService.generate_token\<close>;
  the reset token expires one hour after \<open>now\<close>.
\<close>

definition forgot_password :: "libraries \<Rightarrow> int \<Rightarrow> string \<Rightarrow> database \<Rightarrow> string \<Rightarrow> (failure + response) \<times> database" where
  "forgot_password lib now fresh db request_email =
     (case find (\<lambda>u. email u = request_email) (users db) of
        None \<Rightarrow> (Inr (Message ''If that email exists, a reset link has been sent''), db)
      | Some u \<Rightarrow>
          if \<not> email_verified u then (Inl (HTTPException 400 ''Please verify your email first''), db)
          else
            (let db' = commit db (u\<lparr>reset_token := Some fresh,
                                     reset_token_expires := Some (now + 3600)\<rparr>)
             in (case send_email lib (email u) fresh of
                   Some e \<Rightarrow> (Inl (Uncaught e), db')
                 | None \<Rightarrow> (Inr (Message ''If that email exists, a reset link has been sent''), db'))))"

text \<open>
  \<^verbatim>\<open>resend_verification\<close>; the verification token expires 24 hours after \<open>now\<close>.
\<close>

definition resend_verification :: "libraries \<Rightarrow> int \<Rightarrow> string \<Rightarrow> database \<Rightarrow> string \<Rightarrow> (failure + response) \<times> database" where
  "resend_verification lib now fresh db request_email =
     (case find (\<lambda>u. email u = request_email) (users db) of
        None \<Rightarrow> (Inr (Message ''If that email exists, a verification link has been sent''), db)
      | Some u \<Rightarrow>
          if email_verified u then (Inl (HTTPException 400 ''Email already verified''), db)
          else
            (let db' = commit db (u\<lparr>verification_token := Some fresh,
                                     verification_token_expires := Some (now + 86400)\<rparr>)
             in (case send_email lib (email u) fresh of
                   Some e \<Rightarrow> (Inl (Uncaught e), db')
                 | None \<Rightarrow> (Inr (Message ''If that email exists, a verification link has been sent''), db'))))"

section \<open>Sequences of MFA login verifications\<close>

text \<open>
  A sequence of requests to \<^verbatim>\<open>/auth/mfa/verify\<close>, each with the clock readings at which
  it is served, the token and the code it submits: the outcomes in order, and the
  database after the last request.
\<close>

fun verify_mfa_seq :: "libraries \<Rightarrow> settings \<Rightarrow> database \<Rightarrow> (int \<times> clock \<times> token \<times> string) list \<Rightarrow> (failure + response) list \<times> database" where
  "verify_mfa_seq lib st db [] = ([], db)"
| "verify_mfa_seq lib st db ((now, clock, temp_token, code) # rest) =
     (let (r, db') = verify_mfa lib st now clock db temp_token code;
          (rs, db'') = verify_mfa_seq lib st db' rest
      in (r # rs, db''))"

text \<open>
  Request \<open>rq\<close> is an attempt to verify \<open>code\<close> for the user with primary key \<open>uid\<close>:
  it submits that code with a token whose validated claims name that user.
\<close>

definition attempt_for :: "libraries \<Rightarrow> settings \<Rightarrow> string \<Rightarrow> string \<Rightarrow> (int \<times> clock \<times> token \<times> string) \<Rightarrow> bool" where
  "attempt_for lib st uid code rq =
     (case rq of (now, clock, temp_token, code') \<Rightarrow>
        code' = code \<and>
        (case decode_token lib st now temp_token of
           None \<Rightarrow> False
         | Some payload \<Rightarrow> dict_get payload ''user_id'' = VStr uid))"

text \<open>The number of attempts for \<open>uid\<close> with \<open>code\<close> in a sequence that succeed.\<close>

definition successes :: "libraries \<Rightarrow> settings \<Rightarrow> string \<Rightarrow> string \<Rightarrow> database \<Rightarrow> (int \<times> clock \<times> token \<times> string) list \<Rightarrow> nat" where
  "successes lib st uid code db rqs =
     length (filter (\<lambda>(rq, r). attempt_for lib st uid code rq \<and> \<not> isl r)
               (zip rqs (fst (verify_mfa_seq lib st db rqs))))"

text \<open>The backup-code hashes stored for the user with primary key \<open>uid\<close>.\<close>

definition stored_codes :: "database \<Rightarrow> string \<Rightarrow> string list" where
  "stored_codes db uid =
     (case find (\<lambda>u. id_user u = uid) (users db) of
        None \<Rightarrow> []
      | Some u \<Rightarrow> (case mfa_backup_codes u of None \<Rightarrow> [] | Some hs \<Rightarrow> hs))"

section \<open>Sample data\<close>

text \<open>
  A small instance on which the theorems are exercised. The library record is a toy:
  its decoder accepts exactly the tokens signed with the key under a listed algorithm
  (a clock reading at which none has expired), its password check raises the
  \<^verbatim>\<open>ValueError\<close> of \<^verbatim>\<open>bcrypt\<close> on a digest without the \<^verbatim>\<open>$2b$\<close> prefix, its TOTP accepts
  one code for one secret, and its hash prefixes a mark.
\<close>

definition sample_lib :: libraries where
  "sample_lib =
     \<lparr> jwt_decode = (\<lambda>now tok key algs.
          case tok of
            JWT c k a \<Rightarrow> if k = key \<and> a \<in> set algs then Some c else None
          | Opaque _ \<Rightarrow> None),
       bcrypt_checkpw = (\<lambda>p h.
          if take 4 h = ''$2b$'' then Inr (h = ''$2b$'' @ p)
          else Inl (ValueError ''Invalid salt'')),
       totp_verify = (\<lambda>now secret code window. Inr (secret = ''JBSWY3DP'' \<and> code = ''123456'')),
       b64decode = (\<lambda>s. Inr s),
       sha256_hexdigest = (\<lambda>s. CHR ''#'' # s),
       send_email = (\<lambda>to tok. None) \<rparr>"

text \<open>A clock that advances by one second from one reading to the next.\<close>

definition sample_clock :: "int \<Rightarrow> clock" where
  "sample_clock t k = t + int k"

definition sample_settings :: settings where
  "sample_settings =
     \<lparr> SECRET_KEY = ''key'', ALGORITHM = ''HS256'',
       ACCESS_TOKEN_EXPIRE_MINUTES = 30, REFRESH_TOKEN_EXPIRE_DAYS = 7 \<rparr>"

definition manager :: role where
  "manager =
     \<lparr> id_role = 1, name_role = ''manager'', display_name = ''Manager'', is_system_role = False,
       permissions = [\<lparr> name_permission = ''users.*'', category_permission = ''users'',
                        action_permission = ''*'' \<rparr>] \<rparr>"

definition admin :: role where
  "admin =
     \<lparr> id_role = 2, name_role = ''admin'', display_name = ''Administrator'', is_system_role = True,
       permissions = [\<lparr> name_permission = ''system.*'', category_permission = ''system'',
                        action_permission = ''*'' \<rparr>] \<rparr>"

definition alice :: user where
  "alice =
     \<lparr> id_user = ''u1'', email = ''a@x.com'', hashed_password = ''$2b$Passw0rd1'',
       is_active = True, is_superuser = False, role_id = Some 1,
       mfa_enabled = False, mfa_secret = None, mfa_backup_codes = None,
       email_verified = True, verification_token = None, verification_token_expires = None,
       reset_token = None, reset_token_expires = None \<rparr>"

definition bob :: user where
  "bob =
     \<lparr> id_user = ''u2'', email = ''b@x.com'', hashed_password = ''$2b$hunter2A'',
       is_active = True, is_superuser = False, role_id = None,
       mfa_enabled = True, mfa_secret = Some ''JBSWY3DP'',
       mfa_backup_codes = Some [''#AAAAAAAA'', ''#BBBBBBBB''],
       email_verified = True, verification_token = None, verification_token_expires = None,
       reset_token = None, reset_token_expires = None \<rparr>"

definition carol :: user where
  "carol =
     \<lparr> id_user = ''u3'', email = ''c@x.com'', hashed_password = ''$2b$Secret33'',
       is_active = True, is_superuser = False, role_id = None,
       mfa_enabled = False, mfa_secret = None, mfa_backup_codes = None,
       email_verified = False, verification_token = Some ''vt'',
       verification_token_expires = Some 90000,
       reset_token = None, reset_token_expires = None \<rparr>"

definition dave :: user where
  "dave =
     \<lparr> id_user = ''u4'', email = ''d@x.com'', hashed_password = ''$2b$Rootroot1'',
       is_active = True, is_superuser = False, role_id = Some 2,
       mfa_enabled = False, mfa_secret = None, mfa_backup_codes = None,
       email_verified = True, verification_token = None, verification_token_expires = None,
       reset_token = None, reset_token_expires = None \<rparr>"

definition erin :: user where
  "erin =
     \<lparr> id_user = ''u5'', email = ''e@x.com'', hashed_password = ''$2b$Superus3r'',
       is_active = True, is_superuser = True, role_id = Some 1,
       mfa_enabled = False, mfa_secret = None, mfa_backup_codes = None,
       email_verified = True, verification_token = None, verification_token_expires = None,
       reset_token = None, reset_token_expires = None \<rparr>"

definition sample_db :: database where
  "sample_db = \<lparr> users = [alice, bob, carol, dave, erin], roles = [manager, admin] \<rparr>"

section \<open>Properties of the permission service\<close>

lemmas sample_defs =
  sample_db_def alice_def bob_def carol_def dave_def erin_def manager_def admin_def
  sample_lib_def sample_settings_def sample_clock_def

lemma py_split_not_Nil: "py_split sep s \<noteq> []"
  by (induction s) (auto split: list.splits)

lemma py_split_first: "py_split sep s = takeWhile (\<lambda>c. c \<noteq> sep) s # tl (py_split sep s)"
  by (induction s) (auto split: list.splits simp: py_split_not_Nil)

lemma user_has_permission_iff:
  "user_has_permission db u p \<longleftrightarrow>
     ''system.*'' \<in> set (get_user_permissions db u)
   \<or> p \<in> set (get_user_permissions db u)
   \<or> (CHR ''.'' \<in> set p
      \<and> takeWhile (\<lambda>c. c \<noteq> CHR ''.'') p @ ''.*'' \<in> set (get_user_permissions db u))"
proof -
  obtain ws where "py_split CHR ''.'' p = takeWhile (\<lambda>c. c \<noteq> CHR ''.'') p # ws"
    using py_split_first by blast
  then show ?thesis
    by (simp add: user_has_permission_def Let_def)
qed

text \<open>
  C4. A user whose role is granted exactly the permission set \<open>{users.*}\<close> passes the check
  for \<open>users.read\<close> and \<open>users.delete\<close> and fails it for \<open>products.read\<close>; a user whose
  role's permission set contains \<open>system.*\<close> passes the check for every requested name.
\<close>

theorem wildcard_semantics:
  assumes "user_role db u = Some r"
  shows "(set (map name_permission (permissions r)) = {''users.*''} \<longrightarrow>
            user_has_permission db u ''users.read''
          \<and> user_has_permission db u ''users.delete''
          \<and> \<not> user_has_permission db u ''products.read'')
       \<and> (''system.*'' \<in> set (map name_permission (permissions r)) \<longrightarrow>
            (\<forall>requested. user_has_permission db u requested))"
proof -
  have perms: "get_user_permissions db u = map name_permission (permissions r)"
    using assms by (simp add: get_user_permissions_def)
  show ?thesis
    unfolding user_has_permission_iff perms by simp
qed

theorem wildcard_semantics_witness:
  "user_role sample_db alice = Some manager
   \<and> set (map name_permission (permissions manager)) = {''users.*''}
   \<and> user_has_permission sample_db alice ''users.read''
   \<and> user_has_permission sample_db alice ''users.delete''
   \<and> \<not> user_has_permission sample_db alice ''products.read''
   \<and> user_role sample_db dave = Some admin
   \<and> ''system.*'' \<in> set (map name_permission (permissions admin))
   \<and> user_has_permission sample_db dave ''products.read''"
proof -
  have a: "user_role sample_db alice = Some manager"
    by (simp add: user_role_def sample_defs)
  have d: "user_role sample_db dave = Some admin"
    by (simp add: user_role_def sample_defs)
  have pm: "set (map name_permission (permissions manager)) = {''users.*''}"
    by (simp add: manager_def)
  have pa: "''system.*'' \<in> set (map name_permission (permissions admin))"
    by (simp add: admin_def)
  show ?thesis
    using wildcard_semantics [OF a] wildcard_semantics [OF d] a d pm pa by blast
qed

text \<open>
  C10. The permission check depends only on the permission names granted to the user's
  role: changing the \<open>is_superuser\<close> flag never changes its result, and a superuser whose
  resolved permission names contain neither \<open>system.*\<close>, nor the requested name, nor the
  wildcard of the requested name's category, is refused.
\<close>

theorem superuser_flag_not_consulted:
  "(\<forall>b. user_has_permission db (u\<lparr>is_superuser := b\<rparr>) requested
          = user_has_permission db u requested)
   \<and> (is_superuser u
        \<and> ''system.*'' \<notin> set (get_user_permissions db u)
        \<and> requested \<notin> set (get_user_permissions db u)
        \<and> takeWhile (\<lambda>c. c \<noteq> CHR ''.'') requested @ ''.*'' \<notin> set (get_user_permissions db u)
      \<longrightarrow> \<not> user_has_permission db u requested)"
proof -
  have "get_user_permissions db (u\<lparr>is_superuser := b\<rparr>) = get_user_permissions db u" for b
    by (simp add: get_user_permissions_def user_role_def)
  then show ?thesis
    by (simp add: user_has_permission_iff)
qed

theorem superuser_flag_not_consulted_witness:
  "is_superuser erin
   \<and> get_user_permissions sample_db erin = [''users.*'']
   \<and> ''system.*'' \<notin> set (get_user_permissions sample_db erin)
   \<and> ''products.read'' \<notin> set (get_user_permissions sample_db erin)
   \<and> takeWhile (\<lambda>c. c \<noteq> CHR ''.'') ''products.read'' @ ''.*''
        \<notin> set (get_user_permissions sample_db erin)
   \<and> \<not> user_has_permission sample_db erin ''products.read''
   \<and> user_has_permission sample_db (erin\<lparr>is_superuser := False\<rparr>) ''users.read''
       = user_has_permission sample_db erin ''users.read''"
proof -
  have p: "get_user_permissions sample_db erin = [''users.*'']"
    by (simp add: get_user_permissions_def user_role_def sample_defs)
  have s: "is_superuser erin"
    by (simp add: erin_def)
  show ?thesis
    using superuser_flag_not_consulted [of sample_db erin "''products.read''"]
          superuser_flag_not_consulted [of sample_db erin "''users.read''"] p s
    by simp
qed

section \<open>Properties of the MFA endpoints\<close>

lemma users_commit:
  "users (commit db u') = map (\<lambda>x. if id_user x = id_user u' then u' else x) (users db)"
  by (simp add: commit_def)

text \<open>
  C9. Invoking \<open>disable_mfa\<close> for a user whose MFA is disabled reports the error
  "MFA is not enabled" (status 400) and leaves the database, hence the user's secret,
  backup codes and flags, unchanged; in particular this is the outcome of a second
  call that follows a successful first one, whatever password it submits.
\<close>

theorem disable_mfa_when_disabled:
  "(\<not> mfa_enabled current_user \<longrightarrow>
      disable_mfa lib db current_user password
        = (Inl (HTTPException 400 ''MFA is not enabled''), db))
   \<and> (\<forall>r db' again password'.
        disable_mfa lib db current_user password = (Inr r, db')
        \<and> again \<in> set (users db') \<and> id_user again = id_user current_user
      \<longrightarrow> disable_mfa lib db' again password'
            = (Inl (HTTPException 400 ''MFA is not enabled''), db'))"
proof -
  have first: "disable_mfa lib db cu pw = (Inl (HTTPException 400 ''MFA is not enabled''), db)"
    if "\<not> mfa_enabled cu" for db cu pw
    using that by (simp add: disable_mfa_def)
  have second: "\<not> mfa_enabled again"
    if ok: "disable_mfa lib db current_user password = (Inr r, db')"
      and mem: "again \<in> set (users db')" and same: "id_user again = id_user current_user"
    for r db' again
  proof -
    have db': "db' = MFAService_disable_mfa db current_user"
      using ok by (auto simp: disable_mfa_def split: if_splits sum.splits)
    then show ?thesis
      using mem same by (auto simp: MFAService_disable_mfa_def users_commit)
  qed
  show ?thesis
    using first second by blast
qed

theorem disable_mfa_when_disabled_witness:
  "\<not> mfa_enabled alice
   \<and> disable_mfa sample_lib sample_db alice ''Passw0rd1''
       = (Inl (HTTPException 400 ''MFA is not enabled''), sample_db)
   \<and> (\<exists>db'. disable_mfa sample_lib sample_db bob ''hunter2A''
               = (Inr (Message ''MFA disabled successfully''), db')
            \<and> bob\<lparr>mfa_enabled := False, mfa_secret := None, mfa_backup_codes := None\<rparr>
                \<in> set (users db')
            \<and> disable_mfa sample_lib db'
                 (bob\<lparr>mfa_enabled := False, mfa_secret := None, mfa_backup_codes := None\<rparr>)
                 ''hunter2A''
               = (Inl (HTTPException 400 ''MFA is not enabled''), db'))"
proof -
  let ?bob' = "bob\<lparr>mfa_enabled := False, mfa_secret := None, mfa_backup_codes := None\<rparr>"
  let ?db' = "MFAService_disable_mfa sample_db bob"
  have a: "\<not> mfa_enabled alice"
    by (simp add: alice_def)
  have b: "disable_mfa sample_lib sample_db bob ''hunter2A''
             = (Inr (Message ''MFA disabled successfully''), ?db')"
    by (simp add: disable_mfa_def verify_password_def bob_def sample_lib_def)
  have m: "?bob' \<in> set (users ?db')"
    by (simp add: MFAService_disable_mfa_def users_commit sample_defs)
  have i: "id_user ?bob' = id_user bob"
    by simp
  show ?thesis
    using disable_mfa_when_disabled [of alice sample_lib sample_db "''Passw0rd1''"]
          disable_mfa_when_disabled [of bob sample_lib sample_db "''hunter2A''"]
          a b m i
    by blast
qed

subsection \<open>Backup codes\<close>

text \<open>
  Writing back one row changes what a lookup by primary key returns only for that key.
\<close>

lemma find_replace_row:
  assumes "id_user u' = k"
  shows "find (\<lambda>x. id_user x = uid) (map (\<lambda>x. if id_user x = k then u' else x) xs)
     = (if k = uid
        then (case find (\<lambda>x. id_user x = uid) xs of None \<Rightarrow> None | Some _ \<Rightarrow> Some u')
        else find (\<lambda>x. id_user x = uid) xs)"
  using assms by (induction xs) auto

lemma stored_codes_commit:
  assumes "find (\<lambda>x. id_user x = id_user u) (users db) = Some u"
  shows "stored_codes (commit db (u\<lparr>mfa_backup_codes := Some hs\<rparr>)) uid
           = (if uid = id_user u then hs else stored_codes db uid)"
proof -
  let ?u' = "u\<lparr>mfa_backup_codes := Some hs\<rparr>"
  have "find (\<lambda>x. id_user x = uid) (users (commit db ?u'))
          = (if id_user u = uid
             then (case find (\<lambda>x. id_user x = uid) (users db) of
                     None \<Rightarrow> None | Some _ \<Rightarrow> Some ?u')
             else find (\<lambda>x. id_user x = uid) (users db))"
    using find_replace_row [of ?u' "id_user u" uid "users db"]
    by (simp add: users_commit)
  then show ?thesis
    using assms by (auto simp: stored_codes_def)
qed

lemma count_list_remove1_le: "count_list (remove1 h xs) y \<le> count_list xs y"
  by (induction xs) auto

lemma count_list_remove1_mem:
  "h \<in> set xs \<Longrightarrow> Suc (count_list (remove1 h xs) h) = count_list xs h"
  by (induction xs) auto

lemma verify_user_backup_code_cases:
  assumes "verify_user_backup_code lib db u c = (ok, db')"
  shows "(\<not> ok \<and> db' = db)
       \<or> (ok \<and> (\<exists>hs. mfa_backup_codes u = Some hs \<and> hash_backup_code lib c \<in> set hs
                \<and> db' = commit db (u\<lparr>mfa_backup_codes :=
                                         Some (remove1 (hash_backup_code lib c) hs)\<rparr>)))"
  using assms
  by (auto simp: verify_user_backup_code_def verify_backup_code_def Let_def
           split: if_splits option.splits)

lemma find_by_claim:
  "find (\<lambda>x. VStr (id_user x) = VStr uid) xs = find (\<lambda>x. id_user x = uid) xs"
  by simp

lemma verify_mfa_cases:
  assumes "verify_mfa lib st now clock db tok c = (r, db')"
  shows "db' = db
       \<or> (\<exists>u hs. find (\<lambda>x. id_user x = id_user u) (users db) = Some u
                \<and> mfa_backup_codes u = Some hs \<and> hash_backup_code lib c \<in> set hs
                \<and> db' = commit db (u\<lparr>mfa_backup_codes :=
                                         Some (remove1 (hash_backup_code lib c) hs)\<rparr>))"
proof (cases "db' = db")
  case True
  then show ?thesis by simp
next
  case False
  from assms False obtain payload u ok where
      u: "find (\<lambda>x. VStr (id_user x) = dict_get payload ''user_id'') (users db) = Some u"
      and bc': "verify_user_backup_code lib db u c = (ok, db')"
    by (auto simp: verify_mfa_def Let_def
             split: option.splits if_splits sum.splits prod.splits)
  from verify_user_backup_code_cases [OF bc'] False have bc:
      "verify_user_backup_code lib db u c = (True, db')"
    using bc' by auto
  from u have "VStr (id_user u) = dict_get payload ''user_id''"
    by (auto simp: find_Some_iff)
  with u have u': "find (\<lambda>x. id_user x = id_user u) (users db) = Some u"
    by (metis find_by_claim)
  from verify_user_backup_code_cases [OF bc] u' show ?thesis
    by blast
qed

lemma verify_mfa_count:
  assumes "verify_mfa lib st now clock db tok c = (r, db')"
  shows "count_list (stored_codes db' uid) y \<le> count_list (stored_codes db uid) y"
proof -
  from verify_mfa_cases [OF assms] show ?thesis
  proof
    assume "db' = db"
    then show ?thesis by simp
  next
    assume "\<exists>u hs. find (\<lambda>x. id_user x = id_user u) (users db) = Some u
                \<and> mfa_backup_codes u = Some hs \<and> hash_backup_code lib c \<in> set hs
                \<and> db' = commit db (u\<lparr>mfa_backup_codes :=
                                         Some (remove1 (hash_backup_code lib c) hs)\<rparr>)"
    then obtain u hs where u: "find (\<lambda>x. id_user x = id_user u) (users db) = Some u"
      and hs: "mfa_backup_codes u = Some hs"
      and db': "db' = commit db (u\<lparr>mfa_backup_codes :=
                                         Some (remove1 (hash_backup_code lib c) hs)\<rparr>)"
      by blast
    have "stored_codes db (id_user u) = hs"
      using u hs by (simp add: stored_codes_def)
    then show ?thesis
      using db' stored_codes_commit [OF u] by (auto simp: count_list_remove1_le)
  qed
qed

lemma verify_user_totp_rejects:
  assumes "\<forall>now secret window. totp_verify lib now secret c window \<noteq> Inr True"
  shows "verify_user_totp lib now u c \<noteq> Inr True"
proof -
  have "\<not> verify_totp lib now secret c w" for secret w
    using assms by (cases "totp_verify lib now secret c w") (auto simp: verify_totp_def)
  then show ?thesis
    by (auto simp: verify_user_totp_def split: option.splits sum.splits)
qed

lemma verify_mfa_success:
  assumes totp: "\<forall>now secret window. totp_verify lib now secret c window \<noteq> Inr True"
    and att: "attempt_for lib st uid c (now, clock, tok, c')"
    and run: "verify_mfa lib st now clock db tok c' = (r, db')"
    and ok: "\<not> isl r"
  shows "hash_backup_code lib c \<in> set (stored_codes db uid)
       \<and> stored_codes db' uid = remove1 (hash_backup_code lib c) (stored_codes db uid)"
proof -
  from att obtain payload where c': "c' = c"
    and dec: "decode_token lib st now tok = Some payload"
    and uid: "dict_get payload ''user_id'' = VStr uid"
    by (auto simp: attempt_for_def split: option.splits)
  from run ok dec uid c' obtain u where
      u: "find (\<lambda>x. VStr (id_user x) = VStr uid) (users db) = Some u"
    by (auto simp: verify_mfa_def Let_def split: option.splits if_splits)
  then have u': "find (\<lambda>x. id_user x = uid) (users db) = Some u"
    by simp
  then have idu: "id_user u = uid"
    by (auto simp: find_Some_iff)
  have nt: "verify_user_totp lib now u c \<noteq> Inr True"
    by (rule verify_user_totp_rejects [OF totp])
  from run ok dec uid c' u nt have bc: "verify_user_backup_code lib db u c = (True, db')"
    by (auto simp: verify_mfa_def Let_def
             split: option.splits if_splits sum.splits prod.splits)
  from verify_user_backup_code_cases [OF bc] obtain hs where
      hs: "mfa_backup_codes u = Some hs" and mem: "hash_backup_code lib c \<in> set hs"
      and db': "db' = commit db (u\<lparr>mfa_backup_codes :=
                                      Some (remove1 (hash_backup_code lib c) hs)\<rparr>)"
    by blast
  have st: "stored_codes db uid = hs"
    using u' hs by (simp add: stored_codes_def)
  from u' idu have "find (\<lambda>x. id_user x = id_user u) (users db) = Some u"
    by simp
  from stored_codes_commit [OF this] db' idu st mem show ?thesis
    by simp
qed

lemma successes_Nil: "successes lib st uid c db [] = 0"
  by (simp add: successes_def)

lemma successes_Cons:
  assumes "verify_mfa lib st now clock db tok c' = (r, db')"
  shows "successes lib st uid c db ((now, clock, tok, c') # rest)
           = (if attempt_for lib st uid c (now, clock, tok, c') \<and> \<not> isl r then 1 else 0)
             + successes lib st uid c db' rest"
  using assms by (simp add: successes_def split: prod.splits)

lemma successes_le_count:
  assumes "\<forall>now secret window. totp_verify lib now secret c window \<noteq> Inr True"
  shows "successes lib st uid c db rqs
           \<le> count_list (stored_codes db uid) (hash_backup_code lib c)"
proof (induction rqs arbitrary: db)
  case Nil
  then show ?case by (simp add: successes_Nil)
next
  case (Cons rq rest)
  obtain now clock tok c' where rq: "rq = (now, clock, tok, c')"
    by (cases rq) auto
  obtain r db' where run: "verify_mfa lib st now clock db tok c' = (r, db')"
    by (cases "verify_mfa lib st now clock db tok c'") auto
  let ?H = "hash_backup_code lib c"
  have ih: "successes lib st uid c db' rest \<le> count_list (stored_codes db' uid) ?H"
    by (rule Cons.IH)
  show ?case
  proof (cases "attempt_for lib st uid c (now, clock, tok, c') \<and> \<not> isl r")
    case True
    with verify_mfa_success [OF assms _ run] have
        "?H \<in> set (stored_codes db uid)"
        "stored_codes db' uid = remove1 ?H (stored_codes db uid)"
      by auto
    then have "Suc (count_list (stored_codes db' uid) ?H) = count_list (stored_codes db uid) ?H"
      by (metis count_list_remove1_mem)
    with ih True show ?thesis
      unfolding rq successes_Cons [OF run] by simp
  next
    case False
    with ih verify_mfa_count [OF run, of uid ?H] show ?thesis
      unfolding rq successes_Cons [OF run] by auto
  qed
qed

lemma count_list_distinct: "distinct xs \<Longrightarrow> count_list xs y \<le> 1"
  by (induction xs) (auto simp: count_list_0_iff)

text \<open>
  C7. Backup codes are single-use. In every sequence of MFA login verifications, the
  attempts for one user with one backup code succeed at most as often as the code's hash
  occurs in the list stored for that user, hence at most once when the stored hashes form
  a set (no hash twice). A successful \<open>verify_user_backup_code\<close> returns the database in
  which the first occurrence of the hash has been removed from the user's list, so that
  the hash is no longer stored when the list was a set. The code is assumed not to be
  one that the TOTP check accepts, so that a success is a backup-code verification.
\<close>

theorem backup_codes_single_use:
  assumes "\<forall>now secret window. totp_verify lib now secret code window \<noteq> Inr True"
  shows "successes lib st uid code db rqs
           \<le> count_list (stored_codes db uid) (hash_backup_code lib code)
       \<and> (distinct (stored_codes db uid) \<longrightarrow> successes lib st uid code db rqs \<le> 1)
       \<and> (\<forall>u db'. find (\<lambda>x. id_user x = uid) (users db) = Some u
                 \<and> verify_user_backup_code lib db u code = (True, db')
            \<longrightarrow> stored_codes db' uid
                  = remove1 (hash_backup_code lib code) (stored_codes db uid)
                \<and> (distinct (stored_codes db uid)
                     \<longrightarrow> hash_backup_code lib code \<notin> set (stored_codes db' uid)))"
proof -
  let ?H = "hash_backup_code lib code"
  have bound: "successes lib st uid code db rqs \<le> count_list (stored_codes db uid) ?H"
    by (rule successes_le_count [OF assms])
  have once: "successes lib st uid code db rqs \<le> 1" if "distinct (stored_codes db uid)"
    using bound count_list_distinct [OF that, of ?H] by simp
  have removal: "stored_codes db' uid = remove1 ?H (stored_codes db uid)"
    if u: "find (\<lambda>x. id_user x = uid) (users db) = Some u"
      and bc: "verify_user_backup_code lib db u code = (True, db')" for u db'
  proof -
    from verify_user_backup_code_cases [OF bc] obtain hs where
        hs: "mfa_backup_codes u = Some hs"
        and db': "db' = commit db (u\<lparr>mfa_backup_codes := Some (remove1 ?H hs)\<rparr>)"
      by blast
    from u have idu: "id_user u = uid"
      by (auto simp: find_Some_iff)
    with u have "find (\<lambda>x. id_user x = id_user u) (users db) = Some u"
      by simp
    from stored_codes_commit [OF this] db' idu u hs show ?thesis
      by (simp add: stored_codes_def)
  qed
  show ?thesis
    using bound once removal by auto
qed

theorem backup_codes_single_use_witness:
  "(\<forall>now secret window. totp_verify sample_lib now secret ''AAAAAAAA'' window \<noteq> Inr True)
   \<and> stored_codes sample_db ''u2'' = [''#AAAAAAAA'', ''#BBBBBBBB'']
   \<and> distinct (stored_codes sample_db ''u2'')
   \<and> find (\<lambda>x. id_user x = ''u2'') (users sample_db) = Some bob
   \<and> verify_user_backup_code sample_lib sample_db bob ''AAAAAAAA''
       = (True, commit sample_db (bob\<lparr>mfa_backup_codes := Some [''#BBBBBBBB'']\<rparr>))
   \<and> stored_codes (commit sample_db (bob\<lparr>mfa_backup_codes := Some [''#BBBBBBBB'']\<rparr>)) ''u2''
       = remove1 (hash_backup_code sample_lib ''AAAAAAAA'') (stored_codes sample_db ''u2'')
   \<and> hash_backup_code sample_lib ''AAAAAAAA''
       \<notin> set (stored_codes (commit sample_db (bob\<lparr>mfa_backup_codes := Some [''#BBBBBBBB'']\<rparr>)) ''u2'')
   \<and> successes sample_lib sample_settings ''u2'' ''AAAAAAAA'' sample_db
        [(5, sample_clock 5, JWT [(''user_id'', VStr ''u2''), (''mfa_pending'', VBool True)] ''key'' ''HS256'',
          ''AAAAAAAA''),
         (6, sample_clock 6, JWT [(''user_id'', VStr ''u2''), (''mfa_pending'', VBool True)] ''key'' ''HS256'',
          ''AAAAAAAA'')] \<le> 1"
proof -
  have t: "\<forall>now secret window. totp_verify sample_lib now secret ''AAAAAAAA'' window \<noteq> Inr True"
    by (simp add: sample_lib_def)
  have s: "stored_codes sample_db ''u2'' = [''#AAAAAAAA'', ''#BBBBBBBB'']"
    by (simp add: stored_codes_def sample_defs)
  have f: "find (\<lambda>x. id_user x = ''u2'') (users sample_db) = Some bob"
    by (simp add: sample_defs)
  have v: "verify_user_backup_code sample_lib sample_db bob ''AAAAAAAA''
             = (True, commit sample_db (bob\<lparr>mfa_backup_codes := Some [''#BBBBBBBB'']\<rparr>))"
    by (simp add: verify_user_backup_code_def verify_backup_code_def hash_backup_code_def
          bob_def sample_lib_def)
  show ?thesis
    using backup_codes_single_use [OF t, of sample_settings "''u2''" sample_db] t s f v
    by simp
qed

subsection \<open>The challenge token\<close>

lemmas token_defs = create_access_token_def create_refresh_token_def Let_def

text \<open>
  C2. \<open>verify_mfa\<close> never reads the \<open>mfa_pending\<close> claim. A session token issued by a
  password login before the user enabled MFA (claims \<open>sub\<close>, \<open>user_id\<close>, \<open>role\<close>,
  \<open>permissions\<close>; no \<open>mfa_pending\<close>) is accepted together with a valid TOTP code, and a
  fresh token pair is returned.
\<close>

theorem verify_mfa_accepts_token_without_mfa_pending:
  "verify_mfa sample_lib sample_settings 2000 (sample_clock 2000) sample_db
     (JWT [(''sub'', VStr ''b@x.com''), (''user_id'', VStr ''u2''),
           (''role'', VStr ''user''), (''permissions'', VList []),
           (''exp'', VTime 2800), (''iat'', VTime 1001)] ''key'' ''HS256'')
     ''123456''
   = (Inr (TokenWithRefresh
             (JWT [(''sub'', VStr ''b@x.com''), (''user_id'', VStr ''u2''),
                   (''mfa_verified'', VBool True),
                   (''exp'', VTime 3800), (''iat'', VTime 2001)] ''key'' ''HS256'')
             (JWT [(''sub'', VStr ''b@x.com''), (''user_id'', VStr ''u2''),
                   (''mfa_verified'', VBool True),
                   (''exp'', VTime 606802), (''iat'', VTime 2003)] ''key'' ''HS256'')
             ''bearer''),
      sample_db)"
  by (simp add: verify_mfa_def decode_token_def dict_get_def verify_user_totp_def
        decrypt_secret_def verify_totp_def token_defs sample_defs)

section \<open>Properties of the token endpoints\<close>

text \<open>
  C1, as stated, fails: the login of a user whose role grants \<open>users.*\<close> returns a
  refresh token that carries the \<open>role\<close> and \<open>permissions\<close> claims of the session token.
\<close>

theorem login_refresh_token_carries_permissions:
  "login sample_lib sample_settings (sample_clock 1000) sample_db ''a@x.com'' ''Passw0rd1''
     = Inr (TokenWithRefresh
              (JWT [(''sub'', VStr ''a@x.com''), (''user_id'', VStr ''u1''),
                    (''role'', VStr ''manager''), (''permissions'', VList [''users.*'']),
                    (''exp'', VTime 2800), (''iat'', VTime 1001)] ''key'' ''HS256'')
              (JWT [(''sub'', VStr ''a@x.com''), (''user_id'', VStr ''u1''),
                    (''role'', VStr ''manager''), (''permissions'', VList [''users.*'']),
                    (''exp'', VTime 605802), (''iat'', VTime 1003)] ''key'' ''HS256'')
              ''bearer'')"
  by (simp add: login_def verify_password_def get_user_permissions_def user_role_def
        token_defs sample_defs)

text \<open>
  C1, amended. For every successful password login (MFA disabled), the refresh token
  minted by the login carries the same claims as the session token minted with it:
  subject, user id, role name and the permission list (empty, or the user's resolved
  permissions), followed by an \<open>exp\<close> and an \<open>iat\<close> of its own.
\<close>

theorem login_refresh_token_claims:
  assumes "login lib st clock db login_email login_password
             = Inr (TokenWithRefresh access refresh token_type)"
  shows "\<exists>u role_name perms access_exp access_iat refresh_exp refresh_iat.
           find (\<lambda>u. email u = login_email) (users db) = Some u
         \<and> \<not> mfa_enabled u
         \<and> (perms = [] \<or> perms = get_user_permissions db u)
         \<and> access = JWT [(''sub'', VStr (email u)), (''user_id'', VStr (id_user u)),
                          (''role'', VStr role_name), (''permissions'', VList perms),
                          (''exp'', VTime access_exp), (''iat'', VTime access_iat)]
                      (SECRET_KEY st) (ALGORITHM st)
         \<and> refresh = JWT [(''sub'', VStr (email u)), (''user_id'', VStr (id_user u)),
                           (''role'', VStr role_name), (''permissions'', VList perms),
                           (''exp'', VTime refresh_exp), (''iat'', VTime refresh_iat)]
                       (SECRET_KEY st) (ALGORITHM st)"
proof -
  obtain u where u: "find (\<lambda>u. email u = login_email) (users db) = Some u"
    using assms by (auto simp: login_def split: option.splits)
  have enabled: "\<not> mfa_enabled u"
    using assms u by (auto simp: login_def Let_def split: sum.splits if_splits)
  define rp where "rp =
    (case role_id u of
       None \<Rightarrow> (''user'', [])
     | Some rid \<Rightarrow>
         if rid = 0 then (''user'', [])
         else (case find (\<lambda>r. id_role r = rid) (roles db) of
                 None \<Rightarrow> (''user'', [])
               | Some r \<Rightarrow> (name_role r, get_user_permissions db u)))"
  have perms: "snd rp = [] \<or> snd rp = get_user_permissions db u"
    by (simp add: rp_def split: option.splits)
  let ?data = "[(''sub'', VStr (email u)), (''user_id'', VStr (id_user u)),
                (''role'', VStr (fst rp)), (''permissions'', VList (snd rp))]"
  have res: "access = create_access_token st (clock 0) (clock 1) ?data None
           \<and> refresh = create_refresh_token st (clock 2) (clock 3) ?data"
    using assms u enabled
    by (auto simp: login_def Let_def rp_def split: sum.splits if_splits prod.splits)
  show ?thesis
    using u enabled perms res
    by (auto simp: token_defs split: if_splits)
qed

theorem login_refresh_token_claims_witness:
  "login sample_lib sample_settings (sample_clock 1000) sample_db ''a@x.com'' ''Passw0rd1''
     = Inr (TokenWithRefresh
              (JWT [(''sub'', VStr ''a@x.com''), (''user_id'', VStr ''u1''),
                    (''role'', VStr ''manager''), (''permissions'', VList [''users.*'']),
                    (''exp'', VTime 2800), (''iat'', VTime 1001)] ''key'' ''HS256'')
              (JWT [(''sub'', VStr ''a@x.com''), (''user_id'', VStr ''u1''),
                    (''role'', VStr ''manager''), (''permissions'', VList [''users.*'']),
                    (''exp'', VTime 605802), (''iat'', VTime 1003)] ''key'' ''HS256'')
              ''bearer'')
   \<and> (\<exists>u role_name perms access_exp access_iat refresh_exp refresh_iat.
     find (\<lambda>u. email u = ''a@x.com'') (users sample_db) = Some u
   \<and> \<not> mfa_enabled u
   \<and> (perms = [] \<or> perms = get_user_permissions sample_db u)
   \<and> JWT [(''sub'', VStr ''a@x.com''), (''user_id'', VStr ''u1''),
           (''role'', VStr ''manager''), (''permissions'', VList [''users.*'']),
           (''exp'', VTime 605802), (''iat'', VTime 1003)] ''key'' ''HS256''
      = JWT [(''sub'', VStr (email u)), (''user_id'', VStr (id_user u)),
             (''role'', VStr role_name), (''permissions'', VList perms),
             (''exp'', VTime refresh_exp), (''iat'', VTime refresh_iat)]
          (SECRET_KEY sample_settings) (ALGORITHM sample_settings))"
proof -
  have run: "login sample_lib sample_settings (sample_clock 1000) sample_db ''a@x.com'' ''Passw0rd1''
     = Inr (TokenWithRefresh
              (JWT [(''sub'', VStr ''a@x.com''), (''user_id'', VStr ''u1''),
                    (''role'', VStr ''manager''), (''permissions'', VList [''users.*'']),
                    (''exp'', VTime 2800), (''iat'', VTime 1001)] ''key'' ''HS256'')
              (JWT [(''sub'', VStr ''a@x.com''), (''user_id'', VStr ''u1''),
                    (''role'', VStr ''manager''), (''permissions'', VList [''users.*'']),
                    (''exp'', VTime 605802), (''iat'', VTime 1003)] ''key'' ''HS256'')
              ''bearer'')"
    by (simp add: login_def verify_password_def get_user_permissions_def user_role_def
          token_defs sample_defs)
  show ?thesis
    using run login_refresh_token_claims [OF run] by blast
qed

text \<open>
  C6. The session token minted by \<open>refresh_token\<close> carries \<open>sub\<close>, \<open>user_id\<close>, \<open>exp\<close> and
  \<open>iat\<close> only: for a user whose resolved permissions are \<open>[users.*]\<close> it has no
  \<open>permissions\<close> (and no \<open>role\<close>) claim, whereas \<open>login\<close> embeds both.
\<close>

theorem refresh_omits_permissions:
  "refresh_token sample_lib sample_settings 2000 (sample_clock 2000) sample_db
     (JWT [(''sub'', VStr ''a@x.com''), (''user_id'', VStr ''u1''),
           (''role'', VStr ''manager''), (''permissions'', VList [''users.*'']),
           (''exp'', VTime 605802), (''iat'', VTime 1003)] ''key'' ''HS256'')
   = Inr (Token
            (JWT [(''sub'', VStr ''a@x.com''), (''user_id'', VStr ''u1''),
                  (''exp'', VTime 3800), (''iat'', VTime 2001)] ''key'' ''HS256'')
            ''bearer'')
   \<and> get_user_permissions sample_db alice = [''users.*'']"
  by (simp add: refresh_token_def decode_token_def dict_get_def get_user_permissions_def
        user_role_def token_defs sample_defs)

section \<open>Properties of the account-recovery endpoints\<close>

text \<open>
  C3. The response of \<open>forgot_password\<close> and of \<open>resend_verification\<close> depends on the
  account: an unknown address gets the generic message, but an existing unverified
  account makes \<open>forgot_password\<close> fail with status 400 "Please verify your email first",
  and an existing verified account makes \<open>resend_verification\<close> fail with status 400
  "Email already verified".
\<close>

theorem account_state_changes_response:
  "forgot_password lib now fresh sample_db ''nobody@x.com''
     = (Inr (Message ''If that email exists, a reset link has been sent''), sample_db)
   \<and> forgot_password lib now fresh sample_db ''c@x.com''
     = (Inl (HTTPException 400 ''Please verify your email first''), sample_db)
   \<and> resend_verification lib now fresh sample_db ''nobody@x.com''
     = (Inr (Message ''If that email exists, a verification link has been sent''), sample_db)
   \<and> resend_verification lib now fresh sample_db ''a@x.com''
     = (Inl (HTTPException 400 ''Email already verified''), sample_db)"
  by (simp add: forgot_password_def resend_verification_def sample_defs)

section \<open>Properties of the password hasher\<close>

text \<open>
  C8. \<open>verify_password\<close> raises exactly when \<^verbatim>\<open>bcrypt.checkpw\<close> raises, and with the
  same exception: nothing turns the \<^verbatim>\<open>ValueError\<close> for a malformed digest into
  \<open>False\<close>.
\<close>

theorem verify_password_raises_on_malformed_digest:
  "(verify_password lib plain digest = Inl e) = (bcrypt_checkpw lib plain digest = Inl e)
   \<and> verify_password sample_lib ''Passw0rd1'' ''not-a-bcrypt-digest''
       = Inl (ValueError ''Invalid salt'')"
  by (simp add: verify_password_def sample_lib_def)

end
